theory Spec2Isabelle
  imports Complex_Main "HOL-Library.Multiset"
begin

section \<open>Dashboard data (frontend/src/types/hospital.ts)\<close>

text \<open>
  The dashboard components read a \<open>Patient\<close> object that arrives as JSON from the
  backend. A JSON number is a finite number, so \<open>risk_score\<close> is modelled as a
  \<open>real\<close>: on finite doubles the sign of \<open>b - a\<close> and the comparison \<open>x >= 80\<close>
  agree with the exact ones. The components guard the field with \<open>?? 0\<close>, so it may be
  \<open>null\<close> or \<open>undefined\<close>: it is an \<open>option\<close>. The acuity level is an integer
  (the switch statements compare it with the literals 1 to 5). Only the fields the
  components below branch on or print are kept; \<open>pid\<close> is the field \<open>id\<close>.
\<close>

record Patient =
  pid :: string
  patient_name :: string
  acuity_level :: int
  risk_score :: "real option"
  current_location :: string
  patient_status :: string
  is_critical :: bool

text \<open>The nullish coalescing \<open>patient.risk_score ?? 0\<close>.\<close>

definition riskScoreOf :: "Patient \<Rightarrow> real" where
  "riskScoreOf p = (case risk_score p of None \<Rightarrow> 0 | Some r \<Rightarrow> r)"

section \<open>Decimal printing of an integer (the template literal of getAcuityLabel)\<close>

fun string_of_nat :: "nat \<Rightarrow> string" where
  "string_of_nat n =
     (if n < 10 then [''0123456789'' ! n]
      else string_of_nat (n div 10) @ [''0123456789'' ! (n mod 10)])"

definition string_of_int :: "int \<Rightarrow> string" where
  "string_of_int i =
     (if i < 0 then CHR ''-'' # string_of_nat (nat (- i)) else string_of_nat (nat i))"

section \<open>PatientQueue.tsx: the helpers of PatientCard\<close>

definition getRiskColor :: "real \<Rightarrow> string" where
  "getRiskColor score =
     (if score \<ge> 80 then ''bg-red-500''
      else if score \<ge> 60 then ''bg-orange-500''
      else if score \<ge> 40 then ''bg-yellow-500''
      else ''bg-green-500'')"

text \<open>\<open>getAcuityColor\<close> of PatientQueue.tsx (lines 25 to 33): four cases and a default.\<close>

definition getAcuityColor :: "int \<Rightarrow> string" where
  "getAcuityColor level =
     (if level = 1 then ''bg-red-500 text-white''
      else if level = 2 then ''bg-orange-500 text-white''
      else if level = 3 then ''bg-yellow-500 text-black''
      else if level = 4 then ''bg-green-500 text-white''
      else ''bg-gray-500 text-white'')"

section \<open>PatientDetailPanel.tsx: the helpers of the panel\<close>

definition getAcuityLabel :: "int \<Rightarrow> string" where
  "getAcuityLabel level =
     (if level = 1 then ''Resuscitation''
      else if level = 2 then ''Emergent''
      else if level = 3 then ''Urgent''
      else if level = 4 then ''Less Urgent''
      else if level = 5 then ''Non-Urgent''
      else ''Acuity '' @ string_of_int level)"

text \<open>\<open>getAcuityColor\<close> of PatientDetailPanel.tsx (lines 27 to 36): five cases and a default.\<close>

definition getAcuityColor_panel :: "int \<Rightarrow> string" where
  "getAcuityColor_panel level =
     (if level = 1 then ''bg-red-600''
      else if level = 2 then ''bg-orange-500''
      else if level = 3 then ''bg-yellow-500''
      else if level = 4 then ''bg-green-500''
      else if level = 5 then ''bg-blue-500''
      else ''bg-gray-500'')"

section \<open>PatientCard (PatientQueue.tsx, lines 35 to 91)\<close>

text \<open>
  A rendered card is described by the class arguments that reach \<open>cn\<close> for the card
  (an argument \<open>b && 'classes'\<close> is present only when \<open>b\<close> holds), whether the
  alert triangle is shown, and the classes of the acuity badge and of the risk circle.
  The click handler is left out. \<open>card_isCritical\<close> is the constant \<open>isCritical\<close>
  of lines 36 and 37, \<open>panel_isCritical\<close> below the one of lines 41 and 42 of the panel.
\<close>

record PatientCardProps =
  card_patient :: Patient
  isSelected :: bool

record PatientCardView =
  cardClasses :: "string list"
  alertTriangle :: bool
  acuityBadgeClass :: string
  riskCircleClass :: string

definition card_isCritical :: "Patient \<Rightarrow> bool" where
  "card_isCritical patient =
     (let riskScore = riskScoreOf patient
      in is_critical patient \<or> riskScore \<ge> 80)"

definition PatientCard :: "PatientCardProps \<Rightarrow> PatientCardView" where
  "PatientCard props =
     (let patient = card_patient props;
          riskScore = riskScoreOf patient;
          isCritical = card_isCritical patient
      in \<lparr> cardClasses =
             [''cursor-pointer border-border bg-card p-4 transition-all hover:bg-accent'']
             @ (if isSelected props then [''ring-2 ring-primary''] else [])
             @ (if isCritical then [''border-red-500 border-2''] else []),
           alertTriangle = isCritical,
           acuityBadgeClass = getAcuityColor (acuity_level patient),
           riskCircleClass = getRiskColor riskScore \<rparr>)"

section \<open>PatientDetailPanel (PatientDetailPanel.tsx, lines 38 to 188)\<close>

record PatientPanelView =
  criticalBadge :: bool
  attentionWarning :: bool
  panelAcuityLabel :: string
  panelAcuityClass :: string
  riskHeadline :: string

definition panel_isCritical :: "Patient \<Rightarrow> bool" where
  "panel_isCritical patient =
     (let riskScore = riskScoreOf patient
      in is_critical patient \<or> riskScore \<ge> 80)"

text \<open>The panel returns \<open>null\<close> when it is given no patient.\<close>

definition PatientDetailPanel :: "Patient option \<Rightarrow> PatientPanelView option" where
  "PatientDetailPanel p =
     (case p of
        None \<Rightarrow> None
      | Some patient \<Rightarrow>
          (let riskScore = riskScoreOf patient;
               isCritical = panel_isCritical patient
           in Some \<lparr> criticalBadge = isCritical,
                     attentionWarning = isCritical,
                     panelAcuityLabel = getAcuityLabel (acuity_level patient),
                     panelAcuityClass = getAcuityColor_panel (acuity_level patient),
                     riskHeadline =
                       (if riskScore \<ge> 80 then ''High Risk''
                        else if riskScore \<ge> 50 then ''Moderate Risk''
                        else ''Low Risk'') \<rparr>))"

section \<open>Arrays by reference\<close>

text \<open>
  \<open>PatientQueue\<close> receives its \<open>patients\<close> array by reference, copies it with the
  spread \<open>[...patients]\<close> and sorts the copy with \<open>Array.prototype.sort\<close>, which sorts
  in place and returns the reference it was called on. To tell the copy from the caller's
  array, arrays live in a heap: a reference is an index into the list of all arrays, and
  an allocation appends. \<open>Array.prototype.sort\<close> is the engine's; ECMAScript makes it
  stable and, for a consistent comparator, ordered by it: it is modelled as the stable
  insertion sort driven by the comparator's sign.
\<close>

type_synonym ref = nat

type_synonym heap = "Patient list list"

definition spread :: "heap \<Rightarrow> ref \<Rightarrow> ref \<times> heap" where
  "spread h r = (length h, h @ [h ! r])"

fun insert_by :: "('a \<Rightarrow> 'a \<Rightarrow> real) \<Rightarrow> 'a \<Rightarrow> 'a list \<Rightarrow> 'a list" where
  "insert_by cmp x [] = [x]"
| "insert_by cmp x (y # ys) =
     (if cmp x y \<le> 0 then x # y # ys else y # insert_by cmp x ys)"

definition sort_by :: "('a \<Rightarrow> 'a \<Rightarrow> real) \<Rightarrow> 'a list \<Rightarrow> 'a list" where
  "sort_by cmp xs = foldr (insert_by cmp) xs []"

definition array_sort :: "(Patient \<Rightarrow> Patient \<Rightarrow> real) \<Rightarrow> heap \<Rightarrow> ref \<Rightarrow> ref \<times> heap" where
  "array_sort cmp h r = (r, h[r := sort_by cmp (h ! r)])"

section \<open>PatientQueue (PatientQueue.tsx, lines 100 to 148)\<close>

record PatientQueueProps =
  patients :: ref
  selectedPatientId :: "string option"
  isLoading :: bool

text \<open>
  What the component returns: five placeholder cards while loading; otherwise one
  \<open>PatientCard\<close> element per sorted patient, with its key and props, and the line
  \<open>No patients in queue\<close> when there is none.
\<close>

datatype PatientQueueView =
  Skeletons "nat list"
| Queue "(string \<times> PatientCardProps) list" bool

text \<open>The comparator of line 108.\<close>

definition compareRisk :: "Patient \<Rightarrow> Patient \<Rightarrow> real" where
  "compareRisk a b = riskScoreOf b - riskScoreOf a"

definition sortedPatients :: "heap \<Rightarrow> ref \<Rightarrow> ref \<times> heap" where
  "sortedPatients h ps = (let (c, h1) = spread h ps in array_sort compareRisk h1 c)"

definition PatientQueue :: "heap \<Rightarrow> PatientQueueProps \<Rightarrow> PatientQueueView \<times> heap" where
  "PatientQueue h props =
     (let (sorted, h') = sortedPatients h (patients props)
      in if isLoading props then (Skeletons [1, 2, 3, 4, 5], h')
         else (Queue
                 (map (\<lambda>patient.
                         (pid patient,
                          \<lparr> card_patient = patient,
                            isSelected = (selectedPatientId props = Some (pid patient)) \<rparr>))
                      (h' ! sorted))
                 (length (h' ! sorted) = 0),
               h'))"

text \<open>The patients a rendered queue shows, in the order of their cards.\<close>

fun renderedPatients :: "PatientQueueView \<Rightarrow> Patient list" where
  "renderedPatients (Skeletons ks) = []"
| "renderedPatients (Queue cards no_patients) = map (\<lambda>c. card_patient (snd c)) cards"

text \<open>Three patients of a queue, used to run the components on concrete input.\<close>

definition demo_patient :: "string \<Rightarrow> int \<Rightarrow> real option \<Rightarrow> bool \<Rightarrow> Patient" where
  "demo_patient i lvl score crit =
     \<lparr> pid = i, patient_name = ''Patient '' @ i, acuity_level = lvl, risk_score = score,
       current_location = ''ED'', patient_status = ''waiting'', is_critical = crit \<rparr>"

definition demo_heap :: heap where
  "demo_heap =
     [[demo_patient ''a'' 3 (Some 40) False,
       demo_patient ''b'' 5 None False,
       demo_patient ''c'' 1 (Some 90) True]]"

section \<open>State Store: units and the delta operation\<close>

text \<open>
  Modelled from the spec: the \<open>Unit\<close> entity of the State Store (section 3). The
  backend's state manager is not among the sources; the fields are the ones the spec
  lists, the counts Python integers.
\<close>

record Unit =
  unit_id :: string
  unit_type :: string
  total_beds :: int
  available_beds :: int
  available_staff :: int
  pending_discharges :: int

datatype StoreSignal = Applied | CapacityViolation

text \<open>
  Modelled from the spec: \<open>apply_unit_delta\<close> on one unit (section 4.2), a check and a
  set in one step: a delta that would take \<open>available_beds\<close> out of
  \<open>[0, total_beds]\<close> is rejected with the signal \<open>CapacityViolation\<close> and nothing is
  written; otherwise both counts are updated. The spec bounds the beds only.
\<close>

definition apply_unit_delta :: "Unit \<Rightarrow> int \<Rightarrow> int \<Rightarrow> StoreSignal \<times> Unit" where
  "apply_unit_delta u bed_delta staff_delta =
     (let beds = available_beds u + bed_delta
      in if 0 \<le> beds \<and> beds \<le> total_beds u
         then (Applied,
               u\<lparr> available_beds := beds,
                  available_staff := available_staff u + staff_delta \<rparr>)
         else (CapacityViolation, u))"

text \<open>
  Modelled from the spec: a sequence of delta operations on one unit (section 8). A
  rejected operation is logged and ignored, and the next one meets the unit as it was.
  \<open>unit_states\<close> lists the unit before the first operation and after each one.
\<close>

fun unit_states :: "Unit \<Rightarrow> (int \<times> int) list \<Rightarrow> Unit list" where
  "unit_states u [] = [u]"
| "unit_states u ((bed_delta, staff_delta) # ds) =
     u # unit_states (snd (apply_unit_delta u bed_delta staff_delta)) ds"

definition beds_in_bounds :: "Unit \<Rightarrow> bool" where
  "beds_in_bounds u = (0 \<le> available_beds u \<and> available_beds u \<le> total_beds u)"

definition demo_icu :: Unit where
  "demo_icu =
     \<lparr> unit_id = ''ICU-1'', unit_type = ''ICU'', total_beds = 10, available_beds = 1,
       available_staff = 4, pending_discharges = 2 \<rparr>"

definition demo_deltas :: "(int \<times> int) list" where
  "demo_deltas = [(-1, 0), (-1, 0), (3, 1), (20, 0), (7, -1), (1, 0)]"

section \<open>The acuity helpers\<close>

lemma getAcuityLabel_inj: "inj_on getAcuityLabel {1..5}"
  by (auto simp: inj_on_def getAcuityLabel_def)

lemma getAcuityLabel_fallback_differs:
  "level \<notin> {1..5} \<Longrightarrow> l \<in> {1..5} \<Longrightarrow> getAcuityLabel level \<noteq> getAcuityLabel l"
  by (auto simp: getAcuityLabel_def)

lemma getAcuityColor_panel_inj: "inj_on getAcuityColor_panel {1..5}"
  by (auto simp: inj_on_def getAcuityColor_panel_def)

lemma getAcuityColor_inj_upto_4: "inj_on getAcuityColor {1..4}"
  by (auto simp: inj_on_def getAcuityColor_def)

text \<open>
  C8. Each acuity level from 1 to 5 is to get a colour of its own, different from the
  colour of a level out of range. The queue's \<open>getAcuityColor\<close> has no case for level 5:
  it gives level 5 the default classes, the ones level 6 gets, while the panel's
  \<open>getAcuityColor\<close> gives level 5 its own colour.
\<close>

theorem getAcuityColor_level_5_is_fallback:
  "getAcuityColor 5 = ''bg-gray-500 text-white''
   \<and> getAcuityColor 5 = getAcuityColor 6
   \<and> getAcuityColor_panel 5 = ''bg-blue-500''
   \<and> getAcuityColor_panel 5 \<noteq> getAcuityColor_panel 6"
  by (simp add: getAcuityColor_def getAcuityColor_panel_def)

section \<open>Criticality in the card and in the panel\<close>

text \<open>
  C10. A patient is marked critical exactly when \<open>is_critical\<close> is set or the risk
  score, 0 when missing, is at least 80: the card's alert triangle and red border and the
  panel's badge and warning all show under this condition and under no other, and the
  card and the panel compute the same predicate.
\<close>

theorem critical_marking:
  "card_isCritical p
     = (is_critical p \<or> (case risk_score p of None \<Rightarrow> 0 | Some r \<Rightarrow> r) \<ge> 80)
   \<and> panel_isCritical p = card_isCritical p
   \<and> alertTriangle (PatientCard \<lparr>card_patient = p, isSelected = s\<rparr>) = card_isCritical p
   \<and> (''border-red-500 border-2''
         \<in> set (cardClasses (PatientCard \<lparr>card_patient = p, isSelected = s\<rparr>)))
       = card_isCritical p
   \<and> map_option criticalBadge (PatientDetailPanel (Some p)) = Some (panel_isCritical p)
   \<and> map_option attentionWarning (PatientDetailPanel (Some p)) = Some (panel_isCritical p)"
  by (simp add: card_isCritical_def panel_isCritical_def riskScoreOf_def PatientCard_def
        PatientDetailPanel_def Let_def)

text \<open>
  The marking on concrete patients: a score of exactly 80 without the flag is critical,
  a missing score without the flag is not.
\<close>

theorem critical_marking_witness:
  "card_isCritical (demo_patient ''d'' 2 (Some 80) False)
   \<and> \<not> card_isCritical (demo_patient ''b'' 5 None False)
   \<and> panel_isCritical (demo_patient ''d'' 2 (Some 80) False)
   \<and> \<not> panel_isCritical (demo_patient ''b'' 5 None False)"
  using critical_marking [of "demo_patient ''d'' 2 (Some 80) False"]
    critical_marking [of "demo_patient ''b'' 5 None False"]
  by (simp add: demo_patient_def)

section \<open>The sort of the queue\<close>

lemma mset_insert_by: "mset (insert_by cmp x xs) = add_mset x (mset xs)"
  by (induction xs) auto

lemma mset_sort_by: "mset (sort_by cmp xs) = mset xs"
  unfolding sort_by_def by (induction xs) (auto simp: mset_insert_by)

lemma set_insert_by: "set (insert_by cmp x xs) = insert x (set xs)"
  by (induction xs) auto

lemma sorted_insert_by_compareRisk:
  "sorted_wrt (\<lambda>a b. riskScoreOf b \<le> riskScoreOf a) xs \<Longrightarrow>
   sorted_wrt (\<lambda>a b. riskScoreOf b \<le> riskScoreOf a) (insert_by compareRisk x xs)"
proof (induction xs)
  case Nil
  then show ?case by simp
next
  case (Cons y ys)
  show ?case
  proof (cases "compareRisk x y \<le> 0")
    case True
    then have "riskScoreOf y \<le> riskScoreOf x" by (simp add: compareRisk_def)
    with Cons.prems True show ?thesis by fastforce
  next
    case False
    then have "riskScoreOf x \<le> riskScoreOf y" by (simp add: compareRisk_def)
    with Cons False show ?thesis by (auto simp: set_insert_by)
  qed
qed

lemma sorted_sort_by_compareRisk:
  "sorted_wrt (\<lambda>a b. riskScoreOf b \<le> riskScoreOf a) (sort_by compareRisk xs)"
  unfolding sort_by_def by (induction xs) (auto intro: sorted_insert_by_compareRisk)

lemma sortedPatients_eq:
  "sortedPatients h ps = (length h, h @ [sort_by compareRisk (h ! ps)])"
  by (simp add: sortedPatients_def spread_def array_sort_def)

text \<open>
  C9, as stated: for every input the rendered list is a permutation of the patients.
  While \<open>isLoading\<close> is set the component returns the five placeholders and renders no
  patient, so a queue of one patient is not rendered.
\<close>

theorem PatientQueue_loading_counterexample:
  "mset (renderedPatients (fst (PatientQueue [[demo_patient ''a'' 3 (Some 40) False]]
            \<lparr>patients = 0, selectedPatientId = None, isLoading = True\<rparr>)))
   \<noteq> mset ([[demo_patient ''a'' 3 (Some 40) False]] ! 0)"
  by (simp add: PatientQueue_def sortedPatients_eq)

text \<open>
  C9, amended. For every array of patients the caller passes, no array the caller holds
  is changed, the \<open>patients\<close> array among them (the sort works on a fresh copy); and
  when \<open>isLoading\<close> is not set, the patients are rendered in non-increasing order of
  risk score, a missing score counting as 0, and the rendered list is a permutation of
  the input. While \<open>isLoading\<close> is set, what is rendered is the five placeholder cards
  numbered 1 to 5, and no patient.
\<close>

theorem PatientQueue_sorted_copy:
  assumes "patients props < length h"
  shows "take (length h) (snd (PatientQueue h props)) = h
       \<and> snd (PatientQueue h props) ! patients props = h ! patients props
       \<and> (\<not> isLoading props \<longrightarrow>
            sorted_wrt
              (\<lambda>a b. (case risk_score a of None \<Rightarrow> 0 | Some r \<Rightarrow> r)
                    \<ge> (case risk_score b of None \<Rightarrow> 0 | Some r \<Rightarrow> r))
              (renderedPatients (fst (PatientQueue h props)))
          \<and> mset (renderedPatients (fst (PatientQueue h props))) = mset (h ! patients props))
       \<and> (isLoading props \<longrightarrow>
            fst (PatientQueue h props) = Skeletons [1, 2, 3, 4, 5]
          \<and> renderedPatients (fst (PatientQueue h props)) = [])"
proof -
  have "sorted_wrt (\<lambda>a b. riskScoreOf b \<le> riskScoreOf a) (sort_by compareRisk (h ! patients props))"
    by (rule sorted_sort_by_compareRisk)
  then have "sorted_wrt
      (\<lambda>a b. (case risk_score a of None \<Rightarrow> 0 | Some r \<Rightarrow> r)
            \<ge> (case risk_score b of None \<Rightarrow> 0 | Some r \<Rightarrow> r))
      (sort_by compareRisk (h ! patients props))"
    by (simp add: riskScoreOf_def)
  with assms show ?thesis
    by (simp add: PatientQueue_def sortedPatients_eq nth_append o_def mset_sort_by)
qed

text \<open>
  The queue of three patients with scores 40, missing and 90 is rendered as 90, 40,
  missing, and the caller's array still reads 40, missing, 90. The same queue while
  loading is rendered as the five placeholders, and the caller's array reads the same.
\<close>

theorem PatientQueue_sorted_copy_witness:
  "patients \<lparr>patients = 0, selectedPatientId = Some ''c'', isLoading = False\<rparr> < length demo_heap
   \<and> map pid (renderedPatients (fst (PatientQueue demo_heap
        \<lparr>patients = 0, selectedPatientId = Some ''c'', isLoading = False\<rparr>))) = [''c'', ''a'', ''b'']
   \<and> mset (renderedPatients (fst (PatientQueue demo_heap
        \<lparr>patients = 0, selectedPatientId = Some ''c'', isLoading = False\<rparr>))) = mset (demo_heap ! 0)
   \<and> map pid (snd (PatientQueue demo_heap
        \<lparr>patients = 0, selectedPatientId = Some ''c'', isLoading = False\<rparr>) ! 0) = [''a'', ''b'', ''c'']
   \<and> fst (PatientQueue demo_heap
        \<lparr>patients = 0, selectedPatientId = Some ''c'', isLoading = True\<rparr>) = Skeletons [1, 2, 3, 4, 5]
   \<and> map pid (snd (PatientQueue demo_heap
        \<lparr>patients = 0, selectedPatientId = Some ''c'', isLoading = True\<rparr>) ! 0) = [''a'', ''b'', ''c'']"
proof -
  let ?props = "\<lparr>patients = 0, selectedPatientId = Some ''c'', isLoading = False\<rparr>"
  let ?loading = "\<lparr>patients = 0, selectedPatientId = Some ''c'', isLoading = True\<rparr>"
  have valid: "patients ?props < length demo_heap"
    by (simp add: demo_heap_def)
  have valid': "patients ?loading < length demo_heap"
    by (simp add: demo_heap_def)
  have loaded: "\<not> isLoading ?props"
    by simp
  have loading: "isLoading ?loading"
    by simp
  have order: "map pid (renderedPatients (fst (PatientQueue demo_heap ?props))) = [''c'', ''a'', ''b'']"
    by (simp add: PatientQueue_def sortedPatients_eq demo_heap_def demo_patient_def sort_by_def
          compareRisk_def riskScoreOf_def)
  have before: "map pid (demo_heap ! 0) = [''a'', ''b'', ''c'']"
    by (simp add: demo_heap_def demo_patient_def)
  from PatientQueue_sorted_copy [OF valid] loaded
  have shown: "mset (renderedPatients (fst (PatientQueue demo_heap ?props))) = mset (demo_heap ! 0)"
    and kept: "snd (PatientQueue demo_heap ?props) ! 0 = demo_heap ! 0"
    by simp_all
  from PatientQueue_sorted_copy [OF valid'] loading
  have skeleton: "fst (PatientQueue demo_heap ?loading) = Skeletons [1, 2, 3, 4, 5]"
    and kept': "snd (PatientQueue demo_heap ?loading) ! 0 = demo_heap ! 0"
    by simp_all
  from valid order before shown kept skeleton kept' show ?thesis
    by simp
qed

section \<open>The bed bounds of a unit\<close>

lemma apply_unit_delta_in_bounds:
  "beds_in_bounds u \<Longrightarrow> beds_in_bounds (snd (apply_unit_delta u bd sd))"
  by (simp add: apply_unit_delta_def beds_in_bounds_def Let_def)

lemma unit_states_in_bounds:
  "beds_in_bounds u \<Longrightarrow> \<forall>v \<in> set (unit_states u ds). beds_in_bounds v"
proof (induction ds arbitrary: u)
  case Nil
  then show ?case by simp
next
  case (Cons d ds)
  obtain bd sd where d: "d = (bd, sd)" by (cases d)
  have "beds_in_bounds (snd (apply_unit_delta u bd sd))"
    using Cons.prems by (rule apply_unit_delta_in_bounds)
  then have "\<forall>v \<in> set (unit_states (snd (apply_unit_delta u bd sd)) ds). beds_in_bounds v"
    by (rule Cons.IH)
  with Cons.prems d show ?case by simp
qed

lemma apply_unit_delta_rejects:
  "available_beds u + bd < 0 \<or> total_beds u < available_beds u + bd \<Longrightarrow>
   apply_unit_delta u bd sd = (CapacityViolation, u)"
  by (auto simp: apply_unit_delta_def Let_def)

text \<open>
  C1. Start from a unit within its bounds and run any sequence of delta operations: every
  state the unit passes through has \<open>0 \<le> available_beds \<le> total_beds\<close>, and in each of
  them a delta that would leave the interval is answered with \<open>CapacityViolation\<close> and
  leaves the unit as it was, staff count included.
\<close>

theorem unit_deltas_keep_bed_bounds:
  assumes "0 \<le> available_beds u" and "available_beds u \<le> total_beds u"
  shows "\<forall>v \<in> set (unit_states u ds).
            0 \<le> available_beds v \<and> available_beds v \<le> total_beds v
            \<and> (\<forall>bd sd. available_beds v + bd < 0 \<or> total_beds v < available_beds v + bd
                  \<longrightarrow> apply_unit_delta v bd sd = (CapacityViolation, v))"
proof -
  have "beds_in_bounds u" using assms by (simp add: beds_in_bounds_def)
  then have "\<forall>v \<in> set (unit_states u ds). beds_in_bounds v"
    by (rule unit_states_in_bounds)
  then show ?thesis
    by (simp add: beds_in_bounds_def apply_unit_delta_rejects)
qed

text \<open>
  An ICU of 10 beds with 1 free: two admissions (the second rejected), three discharges,
  a rejected delta of 20, seven discharges and a rejected one more. The free beds read
  1, 0, 0, 3, 3, 10, 10, and the last state rejects a further discharge unchanged.
\<close>

theorem unit_deltas_keep_bed_bounds_witness:
  "0 \<le> available_beds demo_icu \<and> available_beds demo_icu \<le> total_beds demo_icu
   \<and> map available_beds (unit_states demo_icu demo_deltas) = [1, 0, 0, 3, 3, 10, 10]
   \<and> apply_unit_delta (last (unit_states demo_icu demo_deltas)) 1 5
       = (CapacityViolation, last (unit_states demo_icu demo_deltas))"
proof -
  let ?v = "last (unit_states demo_icu demo_deltas)"
  have lo: "0 \<le> available_beds demo_icu" and hi: "available_beds demo_icu \<le> total_beds demo_icu"
    by (simp_all add: demo_icu_def)
  have run: "map available_beds (unit_states demo_icu demo_deltas) = [1, 0, 0, 3, 3, 10, 10]"
    by (simp add: demo_icu_def demo_deltas_def apply_unit_delta_def)
  have full: "total_beds ?v < available_beds ?v + 1"
    by (simp add: demo_icu_def demo_deltas_def apply_unit_delta_def)
  have "?v \<in> set (unit_states demo_icu demo_deltas)"
    by (simp add: demo_deltas_def)
  with unit_deltas_keep_bed_bounds [OF lo hi, of demo_deltas] full
  have "apply_unit_delta ?v 1 5 = (CapacityViolation, ?v)"
    by blast
  with lo hi run show ?thesis
    by simp
qed

end
